theory Spec2Isabelle
  imports Complex_Main "HOL-Library.Word"
begin

unbundle bit_operations_syntax

section \<open>Transport packets and H265 parameter-set extraction\<close>

text \<open>
  Source: \<^verbatim>\<open>internal/core/formatprocessor_h265.go\<close>.
  A byte slice is a list of 8-bit words; a slice result that the code tests against
  \<^verbatim>\<open>nil\<close> is an option (\<open>None\<close> is \<^verbatim>\<open>nil\<close>).
\<close>

type_synonym byte = "8 word"

text \<open>
  The fields of \<^verbatim>\<open>rtp.Packet\<close> (library pion/rtp) that the processor reads or writes.
  The functions below are polymorphic in the record extension, which stands for the
  remaining header fields (version, marker, CSRC list, header extensions).
\<close>

record rtp_packet =
  Padding :: bool
  PayloadType :: "8 word"
  SequenceNumber :: "16 word"
  Timestamp :: "32 word"
  SSRC :: "32 word"
  Payload :: "byte list"
  PaddingSize :: "8 word"

text \<open>The NAL unit type codes of \<^verbatim>\<open>h265.NALUType\<close> (library gortsplib) used by the code.\<close>

definition NALUType_VPS_NUT :: byte where
  "NALUType_VPS_NUT = 32"

definition NALUType_SPS_NUT :: byte where
  "NALUType_SPS_NUT = 33"

definition NALUType_PPS_NUT :: byte where
  "NALUType_PPS_NUT = 34"

definition NALUType_AggregationUnit :: byte where
  "NALUType_AggregationUnit = 48"

text \<open>\<^verbatim>\<open>h265.NALUType((b >> 1) & 0b111111)\<close>\<close>

definition NALUType :: "byte \<Rightarrow> byte" where
  "NALUType b = (drop_bit 1 b) AND 63"

type_synonym param_sets = "byte list option \<times> byte list option \<times> byte list option"

text \<open>
  The \<^verbatim>\<open>for len(payload) > 0\<close> loop of the aggregation case. \<open>pktPayload\<close> is
  \<^verbatim>\<open>pkt.Payload\<close>, \<open>payload\<close> the rest still to be read. As in the source, the type
  inside the loop is read from \<^verbatim>\<open>pkt.Payload[0]\<close>.
\<close>

function aggregation_loop ::
  "byte list \<Rightarrow> byte list \<Rightarrow> byte list option \<Rightarrow> byte list option \<Rightarrow> byte list option \<Rightarrow> param_sets"
where
  "aggregation_loop pktPayload payload vps sps pps =
     (if \<not> length payload > 0 then (vps, sps, pps)
      else if length payload < 2 then (vps, sps, pps)
      else
        let size = (push_bit 8 (ucast (payload ! 0) :: 16 word)) OR (ucast (payload ! 1) :: 16 word);
            payload1 = drop 2 payload
        in
          if size = 0 then (vps, sps, pps)
          else if unat size > length payload1 then (None, None, None)
          else
            let nalu = take (unat size) payload1;
                payload2 = drop (unat size) payload1;
                typ = NALUType (pktPayload ! 0)
            in
              if typ = NALUType_VPS_NUT then aggregation_loop pktPayload payload2 (Some nalu) sps pps
              else if typ = NALUType_SPS_NUT then aggregation_loop pktPayload payload2 vps (Some nalu) pps
              else if typ = NALUType_PPS_NUT then aggregation_loop pktPayload payload2 vps sps (Some nalu)
              else aggregation_loop pktPayload payload2 vps sps pps)"
  by pat_completeness auto
termination
  by (relation "measure (\<lambda>(pktPayload, payload, vps, sps, pps). length payload)") auto

definition rtpH265ExtractVPSSPSPPS :: "'a rtp_packet_scheme \<Rightarrow> param_sets" where
  "rtpH265ExtractVPSSPSPPS pkt =
     (if length (Payload pkt) < 2 then (None, None, None)
      else
        let typ = NALUType (Payload pkt ! 0) in
          if typ = NALUType_VPS_NUT then (Some (Payload pkt), None, None)
          else if typ = NALUType_SPS_NUT then (None, Some (Payload pkt), None)
          else if typ = NALUType_PPS_NUT then (None, None, Some (Payload pkt))
          else if typ = NALUType_AggregationUnit then
            aggregation_loop (Payload pkt) (drop 2 (Payload pkt)) None None None
          else (None, None, None))"

declare aggregation_loop.simps [simp del]

text \<open>
  The extraction as the specification words it: every sub-unit of an aggregation packet is
  classified by its own first byte. It differs from \<open>aggregation_loop\<close> in that one
  expression only, and is used to compare the two.
\<close>

function aggregation_loop_spec ::
  "byte list \<Rightarrow> byte list option \<Rightarrow> byte list option \<Rightarrow> byte list option \<Rightarrow> param_sets"
where
  "aggregation_loop_spec payload vps sps pps =
     (if \<not> length payload > 0 then (vps, sps, pps)
      else if length payload < 2 then (vps, sps, pps)
      else
        let size = (push_bit 8 (ucast (payload ! 0) :: 16 word)) OR (ucast (payload ! 1) :: 16 word);
            payload1 = drop 2 payload
        in
          if size = 0 then (vps, sps, pps)
          else if unat size > length payload1 then (None, None, None)
          else
            let nalu = take (unat size) payload1;
                payload2 = drop (unat size) payload1;
                typ = NALUType (nalu ! 0)
            in
              if typ = NALUType_VPS_NUT then aggregation_loop_spec payload2 (Some nalu) sps pps
              else if typ = NALUType_SPS_NUT then aggregation_loop_spec payload2 vps (Some nalu) pps
              else if typ = NALUType_PPS_NUT then aggregation_loop_spec payload2 vps sps (Some nalu)
              else aggregation_loop_spec payload2 vps sps pps)"
  by pat_completeness auto
termination
  by (relation "measure (\<lambda>(payload, vps, sps, pps). length payload)") auto

declare aggregation_loop_spec.simps [simp del]

definition rtpH265ExtractVPSSPSPPS_spec :: "'a rtp_packet_scheme \<Rightarrow> param_sets" where
  "rtpH265ExtractVPSSPSPPS_spec pkt =
     (if length (Payload pkt) < 2 then (None, None, None)
      else
        let typ = NALUType (Payload pkt ! 0) in
          if typ = NALUType_VPS_NUT then (Some (Payload pkt), None, None)
          else if typ = NALUType_SPS_NUT then (None, Some (Payload pkt), None)
          else if typ = NALUType_PPS_NUT then (None, None, Some (Payload pkt))
          else if typ = NALUType_AggregationUnit then
            aggregation_loop_spec (drop 2 (Payload pkt)) None None None
          else (None, None, None))"

text \<open>
  An aggregation packet (payload header \<open>0x60 0x01\<close>, type 48) that packs a VPS
  \<open>40 01 AA\<close>, an SPS \<open>42 01 BB\<close> and a PPS \<open>44 01 CC\<close>, each behind its 2-byte length 3.
\<close>

definition ap_vps :: "byte list" where
  "ap_vps = [0x40, 0x01, 0xAA]"

definition ap_sps :: "byte list" where
  "ap_sps = [0x42, 0x01, 0xBB]"

definition ap_pps :: "byte list" where
  "ap_pps = [0x44, 0x01, 0xCC]"

definition mk_packet :: "byte list \<Rightarrow> rtp_packet" where
  "mk_packet p = \<lparr>Padding = False, PayloadType = 96, SequenceNumber = 7, Timestamp = 9000,
     SSRC = 0x1234, Payload = p, PaddingSize = 0\<rparr>"

definition ap_packet :: rtp_packet where
  "ap_packet = mk_packet ([0x60, 0x01] @ [0x00, 0x03] @ ap_vps @ [0x00, 0x03] @ ap_sps @ [0x00, 0x03] @ ap_pps)"

text \<open>The same packet cut after the first byte of the PPS: its last length prefix declares 3 bytes, 1 remains.\<close>

definition ap_truncated :: rtp_packet where
  "ap_truncated = mk_packet ([0x60, 0x01] @ [0x00, 0x03] @ ap_vps @ [0x00, 0x03] @ ap_sps @ [0x00, 0x03, 0x44])"

subsection \<open>Facts about the extraction\<close>

lemma NALUType_codes_distinct:
  "NALUType_AggregationUnit \<noteq> NALUType_VPS_NUT"
  "NALUType_AggregationUnit \<noteq> NALUType_SPS_NUT"
  "NALUType_AggregationUnit \<noteq> NALUType_PPS_NUT"
  by (simp_all add: NALUType_AggregationUnit_def NALUType_VPS_NUT_def NALUType_SPS_NUT_def
      NALUType_PPS_NUT_def)

text \<open>
  Inside an aggregation packet \<^verbatim>\<open>pkt.Payload[0]\<close> has type 48, so no branch of the inner
  switch is ever taken: the loop hands back the accumulators it was given, or nothing.
\<close>

lemma aggregation_loop_inert:
  assumes "NALUType (pktPayload ! 0) = NALUType_AggregationUnit"
  shows "aggregation_loop pktPayload payload vps sps pps = (vps, sps, pps)
       \<or> aggregation_loop pktPayload payload vps sps pps = (None, None, None)"
  using assms
proof (induction pktPayload payload vps sps pps rule: aggregation_loop.induct)
  case (1 pktPayload payload vps sps pps)
  have t: "NALUType (pktPayload ! 0) \<noteq> NALUType_VPS_NUT"
    "NALUType (pktPayload ! 0) \<noteq> NALUType_SPS_NUT"
    "NALUType (pktPayload ! 0) \<noteq> NALUType_PPS_NUT"
    using 1(5) NALUType_codes_distinct by simp_all
  show ?case
    using 1(4) [OF _ _ refl refl _ _ refl refl refl t] 1(5)
    by (simp add: aggregation_loop.simps [of pktPayload payload] Let_def NALUType_codes_distinct)
qed

lemma extract_aggregation_nothing:
  assumes "NALUType (Payload pkt ! 0) = NALUType_AggregationUnit"
  shows "rtpH265ExtractVPSSPSPPS pkt = (None, None, None)"
  using aggregation_loop_inert [OF assms, of "drop 2 (Payload pkt)" None None None]
    assms NALUType_codes_distinct
  by (auto simp add: rtpH265ExtractVPSSPSPPS_def Let_def)

text \<open>Whatever the extraction returns as present is the whole payload, of at least 2 bytes.\<close>

lemma extract_present_is_payload:
  assumes "rtpH265ExtractVPSSPSPPS pkt = (vps, sps, pps)"
    and "vps = Some b \<or> sps = Some b \<or> pps = Some b"
  shows "b = Payload pkt \<and> 2 \<le> length b"
proof (cases "NALUType (Payload pkt ! 0) = NALUType_AggregationUnit")
  case True
  then show ?thesis
    using assms extract_aggregation_nothing [OF True] by auto
next
  case False
  then show ?thesis
    using assms by (auto simp add: rtpH265ExtractVPSSPSPPS_def Let_def split: if_splits)
qed

lemmas extract_eval_simps =
  rtpH265ExtractVPSSPSPPS_def mk_packet_def
  ap_vps_def ap_sps_def ap_pps_def NALUType_def NALUType_VPS_NUT_def NALUType_SPS_NUT_def
  NALUType_PPS_NUT_def NALUType_AggregationUnit_def aggregation_loop.simps

text \<open>
  A length prefix that declares more bytes than remain ends the extraction with nothing,
  and the function has no error result: this part of the aggregation rule holds.
\<close>

lemma extract_truncated_nothing:
  "rtpH265ExtractVPSSPSPPS ap_truncated = (None, None, None)"
  by (simp add: ap_truncated_def extract_eval_simps)

text \<open>
  C1. Claim: for an aggregation packet, extraction walks the 2-byte-length-prefixed sub-units,
  classifies each by its own type discriminant and collects the VPS, SPS and PPS present;
  a packet packing all three returns all three, a truncated length prefix returns nothing
  without error.

  The code does not do this. On \<open>ap_packet\<close>, which packs a well-formed VPS, SPS and PPS, the
  source returns nothing at all, because the inner switch reads \<^verbatim>\<open>pkt.Payload[0]\<close> (type 48,
  the aggregation unit itself) where the sub-unit's first byte was meant; the extraction that
  classifies each sub-unit by its own first byte returns the three parameter sets.
\<close>

theorem C1_aggregation_packet_yields_nothing:
  "rtpH265ExtractVPSSPSPPS ap_packet = (None, None, None)
   \<and> rtpH265ExtractVPSSPSPPS_spec ap_packet = (Some ap_vps, Some ap_sps, Some ap_pps)"
  by (simp add: ap_packet_def extract_eval_simps rtpH265ExtractVPSSPSPPS_spec_def
      aggregation_loop_spec.simps)

section \<open>The format processor\<close>

subsection \<open>The track\<close>

text \<open>
  The fields of \<^verbatim>\<open>format.H265\<close> (library gortsplib) that the processor uses. The stored
  parameter sets are read with \<^verbatim>\<open>SafeVPS\<close>, \<^verbatim>\<open>SafeSPS\<close>, \<^verbatim>\<open>SafePPS\<close> and compared with
  \<^verbatim>\<open>bytes.Equal\<close> only, which does not tell a \<^verbatim>\<open>nil\<close> slice from an empty one: the stored
  value is a plain byte list. \<open>store_log\<close> records every call of a \<^verbatim>\<open>SafeSet\<close> accessor, in
  order, so that store mutations can be counted.
\<close>

datatype store_op = StoreVPS "byte list" | StoreSPS "byte list" | StorePPS "byte list"

record format_H265 =
  PayloadTyp :: "8 word"
  VPS :: "byte list"
  SPS :: "byte list"
  PPS :: "byte list"
  MaxDONDiff :: int
  store_log :: "store_op list"

definition SafeSetVPS :: "byte list \<Rightarrow> format_H265 \<Rightarrow> format_H265" where
  "SafeSetVPS b fmt = fmt\<lparr>VPS := b, store_log := store_log fmt @ [StoreVPS b]\<rparr>"

definition SafeSetSPS :: "byte list \<Rightarrow> format_H265 \<Rightarrow> format_H265" where
  "SafeSetSPS b fmt = fmt\<lparr>SPS := b, store_log := store_log fmt @ [StoreSPS b]\<rparr>"

definition SafeSetPPS :: "byte list \<Rightarrow> format_H265 \<Rightarrow> format_H265" where
  "SafeSetPPS b fmt = fmt\<lparr>PPS := b, store_log := store_log fmt @ [StorePPS b]\<rparr>"

definition updateTrackParametersFromRTPPacket ::
  "format_H265 \<Rightarrow> 'a rtp_packet_scheme \<Rightarrow> format_H265" where
  "updateTrackParametersFromRTPPacket fmt pkt =
     (case rtpH265ExtractVPSSPSPPS pkt of (vps, sps, pps) \<Rightarrow>
        let fmt1 = (case vps of None \<Rightarrow> fmt
                    | Some b \<Rightarrow> if b \<noteq> VPS fmt then SafeSetVPS b fmt else fmt);
            fmt2 = (case sps of None \<Rightarrow> fmt1
                    | Some b \<Rightarrow> if b \<noteq> SPS fmt1 then SafeSetSPS b fmt1 else fmt1);
            fmt3 = (case pps of None \<Rightarrow> fmt2
                    | Some b \<Rightarrow> if b \<noteq> PPS fmt2 then SafeSetPPS b fmt2 else fmt2)
        in fmt3)"

subsection \<open>Loosely typed values, errors and results\<close>

text \<open>
  The loosely typed values of command arguments and metadata (\<^verbatim>\<open>interface{}\<close> holding what
  the AMF0 decoder produces). A \<^verbatim>\<open>float64\<close> is a real number here: the code only compares
  such values with 0, 1, 7 and 10 and copies them. \<^verbatim>\<open>flvio.AMFMap\<close> is a list of key and
  value pairs, searched from the front.
\<close>

datatype amf =
    AMFNil
  | AMFString string
  | AMFNumber real
  | AMFInt int
  | AMFBool bool
  | AMFMap "(string \<times> amf) list"
  | AMFOther

record MsgCommandAMF0 =
  cmd_ChunkStreamID :: "8 word"
  cmd_MessageStreamID :: "32 word"
  cmd_Name :: string
  cmd_CommandID :: int
  cmd_Arguments :: "amf list"

text \<open>
  Errors as values. The first two are the decoder errors that the processor compares
  against; \<open>Errorf\<close> is \<^verbatim>\<open>fmt.Errorf\<close> with a fixed text, the next four are the
  \<^verbatim>\<open>fmt.Errorf\<close> calls that print a command or a value, and \<open>ErrLibrary\<close> is an error made
  outside this code.
\<close>

datatype error =
    ErrNonStartingPacketAndNoPrevious
  | ErrMorePacketsNeeded
  | errEmptyMetadata
  | Errorf string
  | ErrUnexpectedCommand MsgCommandAMF0
  | ErrInvalidConnectCommand MsgCommandAMF0
  | ErrUnsupportedVideoCodec amf
  | ErrUnsupportedAudioCodec amf
  | ErrUnableToParseH264Config error
  | ErrLibrary string

text \<open>A run-time panic of the Go program is a result of its own, distinct from a returned error.\<close>

datatype panic = NilPointerDereference | IndexOutOfRange

datatype 'a result = Ok 'a | Err error | Panic panic

type_synonym Duration = "64 word"

subsection \<open>The encoder, the decoder and the processor\<close>

text \<open>
  \<^verbatim>\<open>rtph265.Encoder\<close>: the exported fields that the processor sets, and \<open>enc_state\<close> for the
  state that \<^verbatim>\<open>Init\<close> creates and \<^verbatim>\<open>Encode\<close> advances.
\<close>

record 'es Encoder =
  enc_PayloadType :: "8 word"
  enc_SSRC :: "32 word option"
  enc_InitialSequenceNumber :: "16 word option"
  enc_InitialTimestamp :: "32 word option"
  enc_MaxDONDiff :: int
  enc_state :: 'es

text \<open>
  What the processor takes from outside this file: the packet size of pion/rtp, the
  constant \<^verbatim>\<open>maxPacketSize\<close> of package core, and the encoder and decoder of gortsplib.
  They are parameters of the model; every theorem below holds for all of them.
\<close>

record ('x, 'es, 'ds) rtp_library =
  MarshalSize :: "'x rtp_packet_scheme \<Rightarrow> int"
  maxPacketSize :: int
  Encoder_Init :: "unit Encoder \<Rightarrow> 'es"
  Encode :: "'es Encoder \<Rightarrow> byte list list \<Rightarrow> Duration
               \<Rightarrow> (error + 'x rtp_packet_scheme list option) \<times> 'es"
  CreateEncoder :: "format_H265 \<Rightarrow> 'es Encoder"
  CreateDecoder :: "format_H265 \<Rightarrow> 'ds"
  DecodeUntilMarker :: "'ds \<Rightarrow> 'x rtp_packet_scheme
               \<Rightarrow> (error + byte list list \<times> Duration) \<times> 'ds"

record 'x dataH265 =
  rtpPackets :: "'x rtp_packet_scheme list option"
  ntp :: int
  pts :: Duration
  nalus :: "byte list list"

record ('es, 'ds) formatProcessorH265 =
  format :: format_H265
  encoder :: "'es Encoder option"
  decoder :: "'ds option"

definition newFormatProcessorH265 ::
  "('x, 'es, 'ds) rtp_library \<Rightarrow> format_H265 \<Rightarrow> bool \<Rightarrow> ('es, 'ds) formatProcessorH265" where
  "newFormatProcessorH265 lib forma allocateEncoder =
     \<lparr>format = forma,
      encoder = (if allocateEncoder then Some (CreateEncoder lib forma) else None),
      decoder = None\<rparr>"

text \<open>Both are placeholders in the source: the first does nothing, the second returns its argument.\<close>

definition updateTrackParametersFromNALUs ::
  "('es, 'ds) formatProcessorH265 \<Rightarrow> byte list list \<Rightarrow> ('es, 'ds) formatProcessorH265" where
  "updateTrackParametersFromNALUs t ns = t"

definition remuxNALUs :: "('es, 'ds) formatProcessorH265 \<Rightarrow> byte list list \<Rightarrow> byte list list" where
  "remuxNALUs t ns = ns"

text \<open>
  \<^verbatim>\<open>Encoder.Init\<close> sets up the unexported state. It draws a value for an exported pointer
  field only where that was left \<^verbatim>\<open>nil\<close>, which none of \<^verbatim>\<open>SSRC\<close>,
  \<^verbatim>\<open>InitialSequenceNumber\<close> and \<^verbatim>\<open>InitialTimestamp\<close> is after line 156.
\<close>

definition Init :: "('x, 'es, 'ds) rtp_library \<Rightarrow> unit Encoder \<Rightarrow> 'es Encoder" where
  "Init lib e =
     \<lparr>enc_PayloadType = enc_PayloadType e,
      enc_SSRC = enc_SSRC e,
      enc_InitialSequenceNumber = enc_InitialSequenceNumber e,
      enc_InitialTimestamp = enc_InitialTimestamp e,
      enc_MaxDONDiff = enc_MaxDONDiff e,
      enc_state = Encoder_Init lib e\<rparr>"

subsection \<open>process\<close>

text \<open>
  Lines 146 to 165: with no encoder, the padding of the first packet is removed (the packet is
  shared with the batch, which sees the change) and, when the packet is then larger than
  \<^verbatim>\<open>maxPacketSize\<close>, an encoder is created from the packet's own values.
\<close>

definition start_reencoding ::
  "('x, 'es, 'ds) rtp_library \<Rightarrow> ('es, 'ds) formatProcessorH265 \<Rightarrow> 'x rtp_packet_scheme
     \<Rightarrow> 'x rtp_packet_scheme \<times> ('es, 'ds) formatProcessorH265" where
  "start_reencoding lib t pkt =
     (case encoder t of
        Some e \<Rightarrow> (pkt, t)
      | None \<Rightarrow>
          let pkt1 = pkt\<lparr>Padding := False, PaddingSize := 0\<rparr> in
            if MarshalSize lib pkt1 > maxPacketSize lib then
              let e = \<lparr>enc_PayloadType = PayloadType pkt1,
                       enc_SSRC = Some (SSRC pkt1),
                       enc_InitialSequenceNumber = Some (SequenceNumber pkt1),
                       enc_InitialTimestamp = Some (Timestamp pkt1),
                       enc_MaxDONDiff = MaxDONDiff (format t),
                       enc_state = ()\<rparr>
              in (pkt1, t\<lparr>encoder := Some (Init lib e)\<rparr>)
            else (pkt1, t))"

text \<open>
  Lines 201 to 207. \<^verbatim>\<open>t.encoder.Encode\<close> is called whether or not an encoder exists; on a
  \<^verbatim>\<open>nil\<close> encoder the method reads the fields of its receiver, which panics.
\<close>

definition encode_and_store ::
  "('x, 'es, 'ds) rtp_library \<Rightarrow> ('es, 'ds) formatProcessorH265 \<Rightarrow> 'x dataH265
     \<Rightarrow> unit result \<times> ('es, 'ds) formatProcessorH265 \<times> 'x dataH265" where
  "encode_and_store lib t tdata =
     (case encoder t of
        None \<Rightarrow> (Panic NilPointerDereference, t, tdata)
      | Some e \<Rightarrow>
          (case Encode lib e (nalus tdata) (pts tdata) of
             (Inl err, es) \<Rightarrow> (Err err, t\<lparr>encoder := Some (e\<lparr>enc_state := es\<rparr>)\<rparr>, tdata)
           | (Inr pkts, es) \<Rightarrow>
               (Ok (), t\<lparr>encoder := Some (e\<lparr>enc_state := es\<rparr>)\<rparr>, tdata\<lparr>rtpPackets := pkts\<rparr>)))"

text \<open>The decoder that line 178 calls: the processor's own, or a new one (lines 169 to 171).\<close>

definition current_decoder ::
  "('x, 'es, 'ds) rtp_library \<Rightarrow> ('es, 'ds) formatProcessorH265 \<Rightarrow> 'ds" where
  "current_decoder lib t =
     (case decoder t of None \<Rightarrow> CreateDecoder lib (format t) | Some d \<Rightarrow> d)"

text \<open>Lines 168 to 195, entered when decoding is wanted; \<open>pkt\<close> is the first packet.\<close>

definition decode_from_RTP ::
  "('x, 'es, 'ds) rtp_library \<Rightarrow> ('es, 'ds) formatProcessorH265 \<Rightarrow> 'x dataH265
     \<Rightarrow> 'x rtp_packet_scheme
     \<Rightarrow> unit result \<times> ('es, 'ds) formatProcessorH265 \<times> 'x dataH265" where
  "decode_from_RTP lib t tdata pkt =
     (let d = current_decoder lib t;
          tdata1 = (if encoder t \<noteq> None then tdata\<lparr>rtpPackets := None\<rparr> else tdata)
      in
        case DecodeUntilMarker lib d pkt of
          (Inl err, d') \<Rightarrow>
            if err = ErrNonStartingPacketAndNoPrevious \<or> err = ErrMorePacketsNeeded
            then (Ok (), t\<lparr>decoder := Some d'\<rparr>, tdata1)
            else (Err err, t\<lparr>decoder := Some d'\<rparr>, tdata1)
        | (Inr (ns, p), d') \<Rightarrow>
            let t1 = t\<lparr>decoder := Some d'\<rparr>;
                tdata2 = tdata1\<lparr>nalus := ns, pts := p\<rparr>;
                tdata3 = tdata2\<lparr>nalus := remuxNALUs t1 (nalus tdata2)\<rparr>
            in
              if encoder t1 = None then (Ok (), t1, tdata3)
              else encode_and_store lib t1 tdata3)"

text \<open>
  \<^verbatim>\<open>process\<close>. A batch whose packet list is not \<^verbatim>\<open>nil\<close> but empty makes
  \<^verbatim>\<open>tdata.rtpPackets[0]\<close> panic.
\<close>

definition process ::
  "('x, 'es, 'ds) rtp_library \<Rightarrow> ('es, 'ds) formatProcessorH265 \<Rightarrow> 'x dataH265 \<Rightarrow> bool
     \<Rightarrow> unit result \<times> ('es, 'ds) formatProcessorH265 \<times> 'x dataH265" where
  "process lib t tdata hasNonRTSPReaders =
     (case rtpPackets tdata of
        Some [] \<Rightarrow> (Panic IndexOutOfRange, t, tdata)
      | Some (pkt0 # rest) \<Rightarrow>
          let t1 = t\<lparr>format := updateTrackParametersFromRTPPacket (format t) pkt0\<rparr>;
              (pkt, t2) = start_reencoding lib t1 pkt0;
              tdata1 = tdata\<lparr>rtpPackets := Some (pkt # rest)\<rparr>
          in
            if hasNonRTSPReaders \<or> encoder t2 \<noteq> None then decode_from_RTP lib t2 tdata1 pkt
            else if encoder t2 = None then (Ok (), t2, tdata1)
            else encode_and_store lib t2 tdata1
      | None \<Rightarrow>
          let t1 = updateTrackParametersFromNALUs t (nalus tdata);
              tdata1 = tdata\<lparr>nalus := remuxNALUs t1 (nalus tdata)\<rparr>
          in encode_and_store lib t1 tdata1)"

subsection \<open>Inputs used in the examples\<close>

definition fmt0 :: format_H265 where
  "fmt0 = \<lparr>PayloadTyp = 96, VPS = [], SPS = [], PPS = [], MaxDONDiff = 0, store_log = []\<rparr>"

text \<open>
  The stores that the update policy calls for, for one parameter set: one store when the
  new bytes are present, not empty and not the stored ones, none otherwise.
\<close>

definition policy_store ::
  "(byte list \<Rightarrow> store_op) \<Rightarrow> byte list option \<Rightarrow> byte list \<Rightarrow> store_op list" where
  "policy_store mk new stored =
     (case new of None \<Rightarrow> [] | Some b \<Rightarrow> if b \<noteq> [] \<and> b \<noteq> stored then [mk b] else [])"

subsection \<open>Updating the track parameters\<close>

lemmas update_unfold =
  updateTrackParametersFromRTPPacket_def Let_def SafeSetVPS_def SafeSetSPS_def SafeSetPPS_def

lemma update_log:
  assumes ex: "rtpH265ExtractVPSSPSPPS pkt = (vps, sps, pps)"
  shows "store_log (updateTrackParametersFromRTPPacket fmt pkt) =
           store_log fmt @ policy_store StoreVPS vps (VPS fmt)
             @ policy_store StoreSPS sps (SPS fmt) @ policy_store StorePPS pps (PPS fmt)"
proof -
  have ne: "\<And>b. vps = Some b \<or> sps = Some b \<or> pps = Some b \<Longrightarrow> b \<noteq> []"
    using extract_present_is_payload [OF ex] by fastforce
  show ?thesis
    using ne
    by (cases vps; cases sps; cases pps) (simp_all add: update_unfold ex policy_store_def)
qed

lemma update_values:
  assumes ex: "rtpH265ExtractVPSSPSPPS pkt = (vps, sps, pps)"
  shows "VPS (updateTrackParametersFromRTPPacket fmt pkt) = (case vps of None \<Rightarrow> VPS fmt | Some b \<Rightarrow> b)"
    and "SPS (updateTrackParametersFromRTPPacket fmt pkt) = (case sps of None \<Rightarrow> SPS fmt | Some b \<Rightarrow> b)"
    and "PPS (updateTrackParametersFromRTPPacket fmt pkt) = (case pps of None \<Rightarrow> PPS fmt | Some b \<Rightarrow> b)"
  by (cases vps; cases sps; cases pps; simp add: update_unfold ex)+


lemma update_idem:
  "updateTrackParametersFromRTPPacket (updateTrackParametersFromRTPPacket fmt pkt) pkt
     = updateTrackParametersFromRTPPacket fmt pkt"
proof -
  obtain vps sps pps where ex: "rtpH265ExtractVPSSPSPPS pkt = (vps, sps, pps)"
    by (cases "rtpH265ExtractVPSSPSPPS pkt") auto
  show ?thesis
    by (cases vps; cases sps; cases pps) (simp_all add: update_unfold ex)
qed

text \<open>
  C7. For each of VPS, SPS and PPS on its own, the update replaces the stored value only when
  the extracted bytes are present, not empty, and differ from the stored value: the accessor
  calls made by one update are exactly those of \<open>policy_store\<close>, in the order VPS, SPS, PPS,
  and a stored value ends as the extracted bytes when there are any and as it was otherwise.
  Feeding the same packet a second time changes nothing, neither a stored value nor the log
  of stores; so the same bytes fed twice are stored once.
\<close>

theorem C7_update_policy:
  assumes "rtpH265ExtractVPSSPSPPS pkt = (vps, sps, pps)"
  shows "store_log (updateTrackParametersFromRTPPacket fmt pkt) =
           store_log fmt @ policy_store StoreVPS vps (VPS fmt)
             @ policy_store StoreSPS sps (SPS fmt) @ policy_store StorePPS pps (PPS fmt)
       \<and> VPS (updateTrackParametersFromRTPPacket fmt pkt) = (case vps of None \<Rightarrow> VPS fmt | Some b \<Rightarrow> b)
       \<and> SPS (updateTrackParametersFromRTPPacket fmt pkt) = (case sps of None \<Rightarrow> SPS fmt | Some b \<Rightarrow> b)
       \<and> PPS (updateTrackParametersFromRTPPacket fmt pkt) = (case pps of None \<Rightarrow> PPS fmt | Some b \<Rightarrow> b)
       \<and> updateTrackParametersFromRTPPacket (updateTrackParametersFromRTPPacket fmt pkt) pkt
           = updateTrackParametersFromRTPPacket fmt pkt"
  using update_log [OF assms] update_values [OF assms] update_idem by blast

text \<open>
  A packet that is a VPS, fed twice to a track that has none: one store, at the first call.
\<close>

theorem C7_update_policy_witness:
  "rtpH265ExtractVPSSPSPPS (mk_packet ap_vps) = (Some ap_vps, None, None)
   \<and> store_log (updateTrackParametersFromRTPPacket fmt0 (mk_packet ap_vps)) = [StoreVPS ap_vps]
   \<and> store_log (updateTrackParametersFromRTPPacket
        (updateTrackParametersFromRTPPacket fmt0 (mk_packet ap_vps)) (mk_packet ap_vps)) = [StoreVPS ap_vps]
   \<and> VPS (updateTrackParametersFromRTPPacket fmt0 (mk_packet ap_vps)) = ap_vps"
proof -
  have ex: "rtpH265ExtractVPSSPSPPS (mk_packet ap_vps) = (Some ap_vps, None, None)"
    by (simp add: extract_eval_simps)
  show ?thesis
    using ex C7_update_policy [OF ex, of fmt0]
    by (simp add: policy_store_def fmt0_def ap_vps_def)
qed

subsection \<open>The encoder across process\<close>


text \<open>
  A stand-in for the libraries, to run the model on concrete inputs: a packet takes 12 bytes
  of header, its payload and its padding; the size limit is 1472; the decoder asks for more
  packets at its first call, fails on an empty payload, and otherwise returns the payload as
  one unit; the encoder wraps every unit in a packet.
\<close>

definition lib0 :: "(unit, nat, nat) rtp_library" where
  "lib0 =
     \<lparr>MarshalSize = (\<lambda>p. 12 + int (length (Payload p)) + int (unat (PaddingSize p))),
      maxPacketSize = 1472,
      Encoder_Init = (\<lambda>e. 0),
      Encode = (\<lambda>e ns p. (Inr (Some (map mk_packet ns)), Suc (enc_state e))),
      CreateEncoder = (\<lambda>f. \<lparr>enc_PayloadType = PayloadTyp f, enc_SSRC = Some 1,
         enc_InitialSequenceNumber = Some 0, enc_InitialTimestamp = Some 0,
         enc_MaxDONDiff = MaxDONDiff f, enc_state = 0\<rparr>),
      CreateDecoder = (\<lambda>f. 0),
      DecodeUntilMarker = (\<lambda>d p.
         if Payload p = [] then (Inl (ErrLibrary ''empty payload''), Suc d)
         else if d = 0 then (Inl ErrMorePacketsNeeded, Suc d)
         else (Inr ([Payload p], 0), Suc d))\<rparr>"

definition t0 :: "(nat, nat) formatProcessorH265" where
  "t0 = newFormatProcessorH265 lib0 fmt0 False"

definition t0_enc :: "(nat, nat) formatProcessorH265" where
  "t0_enc = newFormatProcessorH265 lib0 fmt0 True"

definition big_packet :: rtp_packet where
  "big_packet = mk_packet (replicate 1500 0)"

definition batch_of_packets :: "rtp_packet list \<Rightarrow> unit dataH265" where
  "batch_of_packets pkts = \<lparr>rtpPackets = Some pkts, ntp = 0, pts = 0, nalus = []\<rparr>"

definition batch_of_units :: "byte list list \<Rightarrow> unit dataH265" where
  "batch_of_units ns = \<lparr>rtpPackets = None, ntp = 0, pts = 0, nalus = ns\<rparr>"

lemmas example_defs =
  lib0_def t0_def t0_enc_def newFormatProcessorH265_def fmt0_def big_packet_def mk_packet_def
  batch_of_packets_def batch_of_units_def






text \<open>
  C6. A batch of raw packets is processed while decoding is active, that is with a reader that
  needs units or with an encoder (one just created included). When the decoder answers the
  first packet with \<^verbatim>\<open>ErrMorePacketsNeeded\<close> or \<^verbatim>\<open>ErrNonStartingPacketAndNoPrevious\<close>,
  process returns no error and the batch's units and timestamp are as they were; any other
  error of the decoder is returned as it is. In both cases the batch keeps its packets
  unless an encoder is active.
\<close>

theorem C6_decode_errors:
  assumes "rtpPackets tdata = Some (pkt0 # rest)"
    and "start_reencoding lib
           (t\<lparr>format := updateTrackParametersFromRTPPacket (format t) pkt0\<rparr>) pkt0 = (pkt, t2)"
    and "hasNonRTSPReaders \<or> encoder t2 \<noteq> None"
    and "DecodeUntilMarker lib (current_decoder lib t2) pkt = (Inl err, d')"
  shows "process lib t tdata hasNonRTSPReaders =
     (if err = ErrNonStartingPacketAndNoPrevious \<or> err = ErrMorePacketsNeeded
      then Ok () else Err err,
      t2\<lparr>decoder := Some d'\<rparr>,
      tdata\<lparr>rtpPackets := (if encoder t2 \<noteq> None then None else Some (pkt # rest))\<rparr>)"
  using assms by (auto simp add: process_def Let_def decode_from_RTP_def)

text \<open>
  With a reader that needs units, the stand-in decoder asks for more packets on a first
  packet (no error, no unit stored) and fails on an empty payload (the error is returned).
\<close>

theorem C6_decode_errors_witness:
  "fst (process lib0 t0 (batch_of_packets [mk_packet ap_vps]) True) = Ok ()
   \<and> nalus (snd (snd (process lib0 t0 (batch_of_packets [mk_packet ap_vps]) True))) = []
   \<and> fst (process lib0 t0 (batch_of_packets [mk_packet []]) True) = Err (ErrLibrary ''empty payload'')"
proof -
  let ?p = "mk_packet ap_vps"
  let ?t2 = "t0\<lparr>format := updateTrackParametersFromRTPPacket (format t0) ?p\<rparr>"
  have a1: "rtpPackets (batch_of_packets [?p]) = Some (?p # [])"
    by (simp add: example_defs)
  have a2: "start_reencoding lib0 ?t2 ?p = (?p, ?t2)"
    by (simp add: start_reencoding_def Let_def example_defs ap_vps_def)
  have a3: "True \<or> encoder ?t2 \<noteq> None"
    by simp
  have a4: "DecodeUntilMarker lib0 (current_decoder lib0 ?t2) ?p = (Inl ErrMorePacketsNeeded, 1)"
    by (simp add: current_decoder_def example_defs ap_vps_def)
  let ?q = "mk_packet []"
  let ?u2 = "t0\<lparr>format := updateTrackParametersFromRTPPacket (format t0) ?q\<rparr>"
  have b1: "rtpPackets (batch_of_packets [?q]) = Some (?q # [])"
    by (simp add: example_defs)
  have b2: "start_reencoding lib0 ?u2 ?q = (?q, ?u2)"
    by (simp add: start_reencoding_def Let_def example_defs)
  have b3: "True \<or> encoder ?u2 \<noteq> None"
    by simp
  have b4: "DecodeUntilMarker lib0 (current_decoder lib0 ?u2) ?q
              = (Inl (ErrLibrary ''empty payload''), 1)"
    by (simp add: current_decoder_def example_defs)
  show ?thesis
    using C6_decode_errors [OF a1 a2 a3 a4] C6_decode_errors [OF b1 b2 b3 b4]
    by (simp add: batch_of_packets_def)
qed




section \<open>The RTMP connection\<close>

text \<open>Source: the second part of the slice, package \<^verbatim>\<open>rtmp\<close> (the file that defines \<^verbatim>\<open>Conn\<close>).\<close>

subsection \<open>URLs\<close>

text \<open>
  The fields of \<^verbatim>\<open>url.URL\<close> (Go standard library) that the code reads or writes. Parsing
  and path escaping belong to the library and are parameters of the model.
\<close>

record URL =
  Scheme :: string
  Opaque :: string
  Host :: string
  Path :: string
  RawPath :: string
  ForceQuery :: bool
  RawQuery :: string

record url_library =
  EscapedPath :: "URL \<Rightarrow> string"
  ParseRequestURI :: "string \<Rightarrow> error + URL"
  Parse :: "string \<Rightarrow> error + URL"

text \<open>
  \<^verbatim>\<open>URL.RequestURI\<close>: the opaque part, or else the escaped path (\<^verbatim>\<open>/\<close> when empty),
  followed by \<^verbatim>\<open>?\<close> and the query when there is a query or \<^verbatim>\<open>ForceQuery\<close> is set.
\<close>

definition RequestURI :: "url_library \<Rightarrow> URL \<Rightarrow> string" where
  "RequestURI lib u =
     (let result =
        (if Opaque u = [] then
           (if EscapedPath lib u = [] then ''/'' else EscapedPath lib u)
         else if take 2 (Opaque u) = ''//'' then Scheme u @ '':'' @ Opaque u
         else Opaque u)
      in if ForceQuery u \<or> RawQuery u \<noteq> [] then result @ ''?'' @ RawQuery u else result)"

text \<open>\<^verbatim>\<open>strings.Split\<close> with a separator of one character, and \<^verbatim>\<open>strings.Join\<close>.\<close>

fun strings_Split :: "string \<Rightarrow> char \<Rightarrow> string list" where
  "strings_Split [] sep = [[]]"
| "strings_Split (c # cs) sep =
     (if c = sep then [] # strings_Split cs sep
      else (case strings_Split cs sep of
              [] \<Rightarrow> [[c]]
            | seg # segs \<Rightarrow> (c # seg) # segs))"

fun strings_Join :: "string list \<Rightarrow> string \<Rightarrow> string" where
  "strings_Join [] sep = []"
| "strings_Join [x] sep = x"
| "strings_Join (x # y # ys) sep = x @ sep @ strings_Join (y # ys) sep"

definition splitPath :: "url_library \<Rightarrow> URL \<Rightarrow> string \<times> string" where
  "splitPath lib u =
     (let nu = u\<lparr>ForceQuery := False\<rparr>;
          pathsegs = strings_Split (RequestURI lib nu) CHR ''/'';
          app = [];
          stream = [];
          app = (if length pathsegs = 2 then pathsegs ! 1 else app);
          (app, stream) =
            (if length pathsegs = 3 then (pathsegs ! 1, pathsegs ! 2) else (app, stream));
          (app, stream) =
            (if length pathsegs > 3
             then (strings_Join (take 2 (drop 1 pathsegs)) ''/'', strings_Join (drop 3 pathsegs) ''/'')
             else (app, stream))
      in (app, stream))"

definition createURL :: "url_library \<Rightarrow> string \<Rightarrow> string \<Rightarrow> string \<Rightarrow> URL result" where
  "createURL lib tcurl app play =
     (case ParseRequestURI lib (''/'' @ app @ ''/'' @ play) of
        Inl err \<Rightarrow> Err err
      | Inr u \<Rightarrow>
          (case Parse lib tcurl of
             Inl err \<Rightarrow> Err err
           | Inr tu \<Rightarrow>
               if Host tu = [] then Err (Errorf ''invalid host'')
               else
                 let u = u\<lparr>Host := Host tu\<rparr> in
                   if Scheme tu = [] then Err (Errorf ''invalid scheme'')
                   else Ok (u\<lparr>Scheme := Scheme tu\<rparr>)))"

text \<open>
  The splitting that the specification words: the segments of the URL's path alone.
\<close>

definition splitPath_of_path :: "URL \<Rightarrow> string \<times> string" where
  "splitPath_of_path u =
     (let segs = strings_Split (Path u) CHR ''/'' in
        if length segs = 2 then (segs ! 1, [])
        else if length segs = 3 then (segs ! 1, segs ! 2)
        else if length segs > 3
          then (strings_Join (take 2 (drop 1 segs)) ''/'', strings_Join (drop 3 segs) ''/'')
        else ([], []))"

text \<open>
  A stand-in for \<^verbatim>\<open>net/url\<close>, to run the model on concrete inputs. It follows the library on
  the strings used below: a string with a control character (below 0x20, or 0x7f) does not
  parse; a request URI must start with \<^verbatim>\<open>/\<close> and is cut at the first \<^verbatim>\<open>?\<close> into path
  and query; an absolute URL \<^verbatim>\<open>scheme://host/path?query\<close> is cut at \<^verbatim>\<open>://\<close>, at the next
  \<^verbatim>\<open>/\<close> and at the first \<^verbatim>\<open>?\<close>; a path without characters to escape is its own escaped
  form.
\<close>

definition stringContainsCTLByte :: "string \<Rightarrow> bool" where
  "stringContainsCTLByte s = list_ex (\<lambda>c. (of_char c :: nat) < 0x20 \<or> (of_char c :: nat) = 0x7f) s"

definition cut_query :: "string \<Rightarrow> string \<times> string" where
  "cut_query s = (takeWhile (\<lambda>c. c \<noteq> CHR ''?'') s, drop 1 (dropWhile (\<lambda>c. c \<noteq> CHR ''?'') s))"

definition url0_ParseRequestURI :: "string \<Rightarrow> error + URL" where
  "url0_ParseRequestURI s =
     (if stringContainsCTLByte s then Inl (ErrLibrary ''net/url: invalid control character in URL'')
      else if s = [] then Inl (ErrLibrary ''empty url'')
      else if take 1 s \<noteq> ''/'' then Inl (ErrLibrary ''invalid URI for request'')
      else Inr \<lparr>Scheme = [], Opaque = [], Host = [], Path = fst (cut_query s), RawPath = [],
                ForceQuery = False, RawQuery = snd (cut_query s)\<rparr>)"

definition url0_Parse :: "string \<Rightarrow> error + URL" where
  "url0_Parse s =
     (if stringContainsCTLByte s then Inl (ErrLibrary ''net/url: invalid control character in URL'')
      else
        let scheme = takeWhile (\<lambda>c. c \<noteq> CHR '':'') s;
            rest = drop (Suc (length scheme)) s
        in
          if scheme \<noteq> [] \<and> take 2 rest = ''//'' then
            let authority = takeWhile (\<lambda>c. c \<noteq> CHR ''/'') (drop 2 rest);
                pathquery = dropWhile (\<lambda>c. c \<noteq> CHR ''/'') (drop 2 rest)
            in Inr \<lparr>Scheme = scheme, Opaque = [], Host = fst (cut_query authority),
                     Path = fst (cut_query pathquery), RawPath = [], ForceQuery = False,
                     RawQuery = snd (cut_query pathquery)\<rparr>
          else Inr \<lparr>Scheme = [], Opaque = [], Host = [], Path = fst (cut_query s), RawPath = [],
                    ForceQuery = False, RawQuery = snd (cut_query s)\<rparr>)"

definition url0 :: url_library where
  "url0 = \<lparr>EscapedPath = Path, ParseRequestURI = url0_ParseRequestURI, Parse = url0_Parse\<rparr>"

lemmas url0_defs =
  url0_def url0_Parse_def url0_ParseRequestURI_def cut_query_def stringContainsCTLByte_def

definition u_query :: URL where
  "u_query = \<lparr>Scheme = ''rtmp'', Opaque = [], Host = ''host'', Path = ''/app/stream'',
      RawPath = [], ForceQuery = False, RawQuery = ''k=v''\<rparr>"

definition u_deep :: URL where
  "u_deep = \<lparr>Scheme = ''rtmp'', Opaque = [], Host = ''host'', Path = ''/a/b/c/d'',
      RawPath = [], ForceQuery = False, RawQuery = []\<rparr>"

subsection \<open>Splitting and joining\<close>

lemma strings_Split_nonempty: "strings_Split s c \<noteq> []"
  by (induction s) (auto split: list.splits)

lemma strings_Join_Split: "strings_Join (strings_Split s c) [c] = s"
proof (induction s)
  case Nil
  then show ?case by simp
next
  case (Cons a s)
  then show ?case
    using strings_Split_nonempty [of s c]
    by (cases "strings_Split s c"; cases "tl (strings_Split s c)") (auto split: list.splits)
qed

text \<open>
  C4, as claimed: the segments are those of the URL's path. The code splits
  \<^verbatim>\<open>RequestURI()\<close>, which is the path followed by \<^verbatim>\<open>?\<close> and the query. For
  \<^verbatim>\<open>rtmp://host/app/stream?k=v\<close> the path has the three segments \<^verbatim>\<open>""\<close>, \<^verbatim>\<open>app\<close>,
  \<^verbatim>\<open>stream\<close>, so the claim gives the stream \<^verbatim>\<open>stream\<close>; the code gives
  \<^verbatim>\<open>stream?k=v\<close>.
\<close>

theorem C4_splitPath_query_counterexample:
  "splitPath url0 u_query = (''app'', ''stream?k=v'')
   \<and> strings_Split (Path u_query) CHR ''/'' = [[], ''app'', ''stream'']
   \<and> snd (splitPath url0 u_query) \<noteq> strings_Split (Path u_query) CHR ''/'' ! 2
   \<and> splitPath_of_path u_query = (''app'', ''stream'')"
  by (simp add: splitPath_def splitPath_of_path_def u_query_def url0_def RequestURI_def Let_def)

text \<open>
  C4, amended: the segments are those of the request URI (escaped path, then \<^verbatim>\<open>?\<close> and the
  query if there is one), split at \<^verbatim>\<open>/\<close>. With one segment both results are empty; with
  two, the application is segment 1 and the stream is empty; with three, they are segments 1
  and 2; with more, the application is segments 1 and 2 joined and the stream the rest
  joined. Recombining: with three segments or more, segment 0 (empty when the request URI
  starts with \<^verbatim>\<open>/\<close>), \<^verbatim>\<open>/\<close>, the application, \<^verbatim>\<open>/\<close> and the stream make the request URI
  again; with two segments, segment 0, \<^verbatim>\<open>/\<close> and the application do.
\<close>

theorem C4_splitPath_request_uri:
  assumes segs: "segs = strings_Split (RequestURI lib (u\<lparr>ForceQuery := False\<rparr>)) CHR ''/''"
    and sp: "splitPath lib u = (app, stream)"
  shows "(length segs = 1 \<longrightarrow> app = [] \<and> stream = [])
       \<and> (length segs = 2 \<longrightarrow> app = segs ! 1 \<and> stream = []
             \<and> segs ! 0 @ ''/'' @ app = RequestURI lib (u\<lparr>ForceQuery := False\<rparr>))
       \<and> (length segs = 3 \<longrightarrow> app = segs ! 1 \<and> stream = segs ! 2)
       \<and> (length segs > 3 \<longrightarrow> app = strings_Join (take 2 (drop 1 segs)) ''/''
             \<and> stream = strings_Join (drop 3 segs) ''/'')
       \<and> (length segs \<ge> 3 \<longrightarrow>
             segs ! 0 @ ''/'' @ app @ ''/'' @ stream = RequestURI lib (u\<lparr>ForceQuery := False\<rparr>))"
proof -
  let ?r = "RequestURI lib (u\<lparr>ForceQuery := False\<rparr>)"
  have J: "strings_Join segs ''/'' = ?r"
    using strings_Join_Split [of ?r "CHR ''/''"] segs by simp
  have ne: "segs \<noteq> []"
    using segs strings_Split_nonempty by simp
  show ?thesis
  proof (cases segs)
    case Nil
    with ne show ?thesis by simp
  next
    case c1: (Cons s0 r1)
    show ?thesis
    proof (cases r1)
      case Nil
      with c1 sp segs show ?thesis
        by (auto simp add: splitPath_def Let_def)
    next
      case c2: (Cons s1 r2)
      show ?thesis
      proof (cases r2)
        case Nil
        with c1 c2 sp J segs [symmetric] show ?thesis
          by (auto simp add: splitPath_def Let_def)
      next
        case c3: (Cons s2 r3)
        show ?thesis
        proof (cases r3)
          case Nil
          with c1 c2 c3 sp J segs [symmetric] show ?thesis
            by (auto simp add: splitPath_def Let_def)
        next
          case c4: (Cons s3 r4)
          with c1 c2 c3 sp J segs [symmetric] show ?thesis
            by (auto simp add: splitPath_def Let_def)
        qed
      qed
    qed
  qed
qed

text \<open>\<^verbatim>\<open>rtmp://host/a/b/c/d\<close>: five segments, application \<^verbatim>\<open>a/b\<close>, stream \<^verbatim>\<open>c/d\<close>.\<close>

theorem C4_splitPath_request_uri_witness:
  "strings_Split (RequestURI url0 (u_deep\<lparr>ForceQuery := False\<rparr>)) CHR ''/''
     = [[], ''a'', ''b'', ''c'', ''d'']
   \<and> splitPath url0 u_deep = (''a/b'', ''c/d'')
   \<and> [] @ ''/'' @ ''a/b'' @ ''/'' @ ''c/d'' = RequestURI url0 (u_deep\<lparr>ForceQuery := False\<rparr>)"
proof -
  have a1: "[[], ''a'', ''b'', ''c'', ''d'']
              = strings_Split (RequestURI url0 (u_deep\<lparr>ForceQuery := False\<rparr>)) CHR ''/''"
    by (simp add: u_deep_def url0_def RequestURI_def)
  have a2: "splitPath url0 u_deep = (''a/b'', ''c/d'')"
    by (simp add: splitPath_def u_deep_def url0_def RequestURI_def Let_def)
  have a3: "RequestURI url0 (u_deep\<lparr>ForceQuery := False\<rparr>) = ''/a/b/c/d''"
    by (simp add: u_deep_def url0_def RequestURI_def)
  have a4: "strings_Split ''/a/b/c/d'' CHR ''/'' = [[], ''a'', ''b'', ''c'', ''d'']"
    by simp
  show ?thesis
    using C4_splitPath_request_uri [OF a1 a2] a2 by (simp only: a3 a4) simp
qed

text \<open>
  C5, as claimed: \<^verbatim>\<open>createURL\<close> fails if and only if the host or the scheme of the parsed
  base URL is empty, and on success the path is \<^verbatim>\<open>/application/stream\<close>. The code first
  parses \<^verbatim>\<open>/application/stream\<close> as a request URI and returns the parser's error. With the
  base \<^verbatim>\<open>rtmp://host/app\<close>, whose host and scheme are not empty, a stream name that holds a
  line feed makes \<^verbatim>\<open>createURL\<close> fail; and the stream name \<^verbatim>\<open>s?k=v\<close> gives the path
  \<^verbatim>\<open>/app/s\<close> and the query \<^verbatim>\<open>k=v\<close>.
\<close>

theorem C5_createURL_counterexample:
  "Parse url0 ''rtmp://host/app''
     = Inr \<lparr>Scheme = ''rtmp'', Opaque = [], Host = ''host'', Path = ''/app'', RawPath = [],
            ForceQuery = False, RawQuery = []\<rparr>
   \<and> createURL url0 ''rtmp://host/app'' ''app'' (''a'' @ [CHR 0x0A] @ ''b'')
       = Err (ErrLibrary ''net/url: invalid control character in URL'')
   \<and> createURL url0 ''rtmp://host/app'' ''app'' ''s?k=v''
       = Ok \<lparr>Scheme = ''rtmp'', Opaque = [], Host = ''host'', Path = ''/app/s'', RawPath = [],
            ForceQuery = False, RawQuery = ''k=v''\<rparr>"
  by (simp add: createURL_def url0_defs Let_def)

text \<open>
  C5, amended: \<^verbatim>\<open>createURL\<close> fails if and only if \<^verbatim>\<open>/application/stream\<close> does not parse
  as a request URI, or the base URL does not parse, or the host or the scheme of the parsed
  base URL is empty; the error is the parser's, \<^verbatim>\<open>invalid host\<close> or \<^verbatim>\<open>invalid scheme\<close>. On
  success the result is the URL parsed from \<^verbatim>\<open>/application/stream\<close> (its path and query are
  what the parser made of that string) with the host and the scheme of the base URL.
\<close>

theorem C5_createURL:
  "(case createURL lib tcurl app play of
      Ok u' \<Rightarrow>
        (\<exists>u tu. ParseRequestURI lib (''/'' @ app @ ''/'' @ play) = Inr u
           \<and> Parse lib tcurl = Inr tu \<and> Host tu \<noteq> [] \<and> Scheme tu \<noteq> []
           \<and> u' = u\<lparr>Host := Host tu, Scheme := Scheme tu\<rparr>
           \<and> Host u' = Host tu \<and> Scheme u' = Scheme tu
           \<and> Path u' = Path u \<and> RawQuery u' = RawQuery u)
    | Err e \<Rightarrow>
        ParseRequestURI lib (''/'' @ app @ ''/'' @ play) = Inl e
        \<or> (\<exists>u. ParseRequestURI lib (''/'' @ app @ ''/'' @ play) = Inr u
              \<and> Parse lib tcurl = Inl e)
        \<or> (\<exists>u tu. ParseRequestURI lib (''/'' @ app @ ''/'' @ play) = Inr u
              \<and> Parse lib tcurl = Inr tu
              \<and> (Host tu = [] \<and> e = Errorf ''invalid host''
                  \<or> Host tu \<noteq> [] \<and> Scheme tu = [] \<and> e = Errorf ''invalid scheme''))
    | Panic p \<Rightarrow> False)"
  by (auto simp add: createURL_def Let_def split: sum.splits)

theorem C5_createURL_witness:
  "createURL url0 ''rtmp://host/app'' ''app'' ''stream''
     = Ok \<lparr>Scheme = ''rtmp'', Opaque = [], Host = ''host'', Path = ''/app/stream'', RawPath = [],
            ForceQuery = False, RawQuery = []\<rparr>
   \<and> createURL url0 ''host/app'' ''app'' ''stream'' = Err (Errorf ''invalid host'')"
  using C5_createURL [of url0 "''rtmp://host/app''" "''app''" "''stream''"]
    C5_createURL [of url0 "''host/app''" "''app''" "''stream''"]
  by (simp add: createURL_def url0_defs Let_def)

subsection \<open>Messages and the message channel\<close>

text \<open>
  The message types of package \<^verbatim>\<open>message\<close> that the code reads or writes, with the fields it
  uses; every other kind of message is \<open>MsgOther\<close>.
\<close>

record MsgVideo =
  video_DTS :: Duration
  video_IsKeyFrame :: bool
  video_H264Type :: "8 word"
  video_Payload :: "byte list"

record MsgAudio =
  audio_DTS :: Duration
  audio_AACType :: "8 word"
  audio_Payload :: "byte list"

datatype message =
    MsgSetWindowAckSize "32 word"
  | MsgSetPeerBandwidth "32 word" "8 word"
  | MsgSetChunkSize "32 word"
  | MsgUserControlStreamIsRecorded "32 word"
  | MsgUserControlStreamBegin "32 word"
  | MsgCommandAMF0 MsgCommandAMF0
  | MsgDataAMF0 "amf list"
  | MsgVideo MsgVideo
  | MsgAudio MsgAudio
  | MsgOther

text \<open>
  A connection, seen from this code: the outcome of the handshake, the messages that the
  peer will send (reading past the last is the transport's error), the messages written so
  far, and how many writes succeed before the transport fails (\<open>None\<close>: all of them).
\<close>

record Conn =
  handshake_error :: "string option"
  inbox :: "message list"
  read_error :: string
  outbox :: "message list"
  write_budget :: "nat option"
  write_error :: string

definition ReadMessage :: "Conn \<Rightarrow> (error + message) \<times> Conn" where
  "ReadMessage c =
     (case inbox c of
        [] \<Rightarrow> (Inl (ErrLibrary (read_error c)), c)
      | msg # rest \<Rightarrow> (Inr msg, c\<lparr>inbox := rest\<rparr>))"


lemma ReadMessage_shorter:
  "ReadMessage c = (Inr msg, c') \<Longrightarrow> length (inbox c') < length (inbox c)"
  by (auto simp add: ReadMessage_def split: list.splits)





subsection \<open>InitializeServer\<close>

text \<open>\<^verbatim>\<open>AMFMap.GetV\<close>, \<^verbatim>\<open>GetString\<close> and \<^verbatim>\<open>GetFloat64\<close> (library flvio): the first entry with the key.\<close>

definition GetV :: "(string \<times> amf) list \<Rightarrow> string \<Rightarrow> amf option" where
  "GetV ma k = map_of ma k"











subsection \<open>The play command\<close>







definition conn_with :: "message list \<Rightarrow> Conn" where
  "conn_with msgs =
     \<lparr>handshake_error = None, inbox = msgs, read_error = ''EOF'', outbox = [],
      write_budget = None, write_error = ''broken pipe''\<rparr>"







subsection \<open>Reading the tracks\<close>

text \<open>
  The tracks that discovery returns: \<^verbatim>\<open>format.H264\<close>, \<^verbatim>\<open>format.MPEG4Audio\<close> (its
  configuration is whatever the audio library parses) and, as a \<^verbatim>\<open>format.Format\<close>, an
  H264 or an H265 track.
\<close>

record format_H264 =
  h264_PayloadTyp :: "8 word"
  h264_SPS :: "byte list"
  h264_PPS :: "byte list"
  h264_PacketizationMode :: int

record 'cfg format_MPEG4Audio =
  aac_PayloadTyp :: "8 word"
  aac_Config :: 'cfg
  aac_SizeLength :: int
  aac_IndexLength :: int
  aac_IndexDeltaLength :: int

datatype Format = FormatH264 format_H264 | FormatH265 format_H265

text \<open>
  The parsers used by discovery, parameters of the model: \<^verbatim>\<open>h264conf.Conf.Unmarshal\<close>
  (the result is the SPS and the PPS), \<^verbatim>\<open>mpeg4audio.Config.Unmarshal\<close> and
  \<^verbatim>\<open>h264.AVCCUnmarshal\<close>. A failure is the text of the library's error.
\<close>

record 'cfg track_library =
  h264conf_Unmarshal :: "byte list \<Rightarrow> string + byte list \<times> byte list"
  mpeg4audio_Unmarshal :: "byte list \<Rightarrow> string + 'cfg"
  AVCCUnmarshal :: "byte list \<Rightarrow> string + byte list list"

text \<open>\<^verbatim>\<open>flvio.AVC_SEQHDR\<close>, which the code compares both video and audio types with.\<close>

definition AVC_SEQHDR :: "8 word" where
  "AVC_SEQHDR = 0"

definition trackFromH264DecoderConfig :: "'cfg track_library \<Rightarrow> byte list \<Rightarrow> error + format_H264" where
  "trackFromH264DecoderConfig lib data =
     (case h264conf_Unmarshal lib data of
        Inl err \<Rightarrow> Inl (ErrUnableToParseH264Config (ErrLibrary err))
      | Inr (sps, pps) \<Rightarrow>
          Inr \<lparr>h264_PayloadTyp = 96, h264_SPS = sps, h264_PPS = pps, h264_PacketizationMode = 1\<rparr>)"

definition trackFromAACDecoderConfig ::
  "'cfg track_library \<Rightarrow> byte list \<Rightarrow> error + 'cfg format_MPEG4Audio" where
  "trackFromAACDecoderConfig lib data =
     (case mpeg4audio_Unmarshal lib data of
        Inl err \<Rightarrow> Inl (ErrLibrary err)
      | Inr mpegConf \<Rightarrow>
          Inr \<lparr>aac_PayloadTyp = 96, aac_Config = mpegConf, aac_SizeLength = 13,
               aac_IndexLength = 3, aac_IndexDeltaLength = 3\<rparr>)"

subsubsection \<open>readTracksFromMessages\<close>

text \<open>
  What one turn of a reading loop decides: return from the function, leave the loop, or read
  the next message.
\<close>

datatype ('s, 'r) step = Return 'r | BreakOuter 's | Continue 's








subsubsection \<open>readTracksFromMetadata\<close>

text \<open>The two closures of lines 836 to 887: does the metadata declare a video, an audio track?\<close>

definition metadata_hasVideo :: "(string \<times> amf) list \<Rightarrow> error + bool" where
  "metadata_hasVideo md =
     (case GetV md ''videocodecid'' of
        None \<Rightarrow> Inr False
      | Some v \<Rightarrow>
          (case v of
             AMFNumber vt \<Rightarrow>
               if vt = 0 then Inr False
               else if vt = 7 then Inr True
               else Inl (ErrUnsupportedVideoCodec v)
           | AMFString vt \<Rightarrow>
               if vt = ''avc1'' then Inr True else Inl (ErrUnsupportedVideoCodec v)
           | _ \<Rightarrow> Inl (ErrUnsupportedVideoCodec v)))"

definition metadata_hasAudio :: "(string \<times> amf) list \<Rightarrow> error + bool" where
  "metadata_hasAudio md =
     (case GetV md ''audiocodecid'' of
        None \<Rightarrow> Inr False
      | Some v \<Rightarrow>
          (case v of
             AMFNumber vt \<Rightarrow>
               if vt = 0 then Inr False
               else if vt = 10 then Inr True
               else Inl (ErrUnsupportedAudioCodec v)
           | AMFString vt \<Rightarrow>
               if vt = ''mp4a'' then Inr True else Inl (ErrUnsupportedAudioCodec v)
           | _ \<Rightarrow> Inl (ErrUnsupportedAudioCodec v)))"

text \<open>
  Lines 927 to 940: the parameter sets of a key frame, each unit classified by its first
  byte. \<open>None\<close> is the panic of \<^verbatim>\<open>nalu[0]\<close> on an empty unit.
\<close>

fun sniff_h265 :: "byte list list \<Rightarrow> param_sets \<Rightarrow> param_sets option" where
  "sniff_h265 [] acc = Some acc"
| "sniff_h265 (nalu # rest) (h265VPS, h265SPS, h265PPS) =
     (if nalu = [] then None
      else
        let typ = NALUType (nalu ! 0) in
          if typ = NALUType_VPS_NUT then sniff_h265 rest (Some nalu, h265SPS, h265PPS)
          else if typ = NALUType_SPS_NUT then sniff_h265 rest (h265VPS, Some nalu, h265PPS)
          else if typ = NALUType_PPS_NUT then sniff_h265 rest (h265VPS, h265SPS, Some nalu)
          else sniff_h265 rest (h265VPS, h265SPS, h265PPS))"

text \<open>The switch of lines 905 to 966; the state is \<^verbatim>\<open>videoTrack\<close> and \<^verbatim>\<open>audioTrack\<close>.\<close>

definition metadata_step ::
  "'cfg track_library \<Rightarrow> bool \<Rightarrow> bool
     \<Rightarrow> Format option \<times> 'cfg format_MPEG4Audio option
     \<Rightarrow> message
     \<Rightarrow> (Format option \<times> 'cfg format_MPEG4Audio option,
         (Format option \<times> 'cfg format_MPEG4Audio option) result) step" where
  "metadata_step lib hasVideo hasAudio s msg =
     (case s of (videoTrack, audioTrack) \<Rightarrow>
        (case msg of
           MsgVideo tmsg \<Rightarrow>
             if \<not> hasVideo then Return (Err (Errorf ''unexpected video packet''))
             else if videoTrack = None then
               (if video_H264Type tmsg = AVC_SEQHDR then
                  (case trackFromH264DecoderConfig lib (video_Payload tmsg) of
                     Inl err \<Rightarrow> Return (Err err)
                   | Inr tr \<Rightarrow> Continue (Some (FormatH264 tr), audioTrack))
                else if video_H264Type tmsg = 1 \<and> video_IsKeyFrame tmsg then
                  (case AVCCUnmarshal lib (video_Payload tmsg) of
                     Inl err \<Rightarrow> Return (Err (ErrLibrary err))
                   | Inr ns \<Rightarrow>
                       (case sniff_h265 ns (None, None, None) of
                          None \<Rightarrow> Return (Panic IndexOutOfRange)
                        | Some (Some h265VPS, Some h265SPS, Some h265PPS) \<Rightarrow>
                            Continue
                              (Some (FormatH265
                                 \<lparr>PayloadTyp = 96, VPS = h265VPS, SPS = h265SPS, PPS = h265PPS,
                                  MaxDONDiff = 0, store_log = []\<rparr>),
                               audioTrack)
                        | Some _ \<Rightarrow> Continue (videoTrack, audioTrack)))
                else Continue (videoTrack, audioTrack))
             else Continue (videoTrack, audioTrack)
         | MsgAudio tmsg \<Rightarrow>
             if \<not> hasAudio then Return (Err (Errorf ''unexpected audio packet''))
             else if audioTrack = None \<and> audio_AACType tmsg = AVC_SEQHDR then
               (case trackFromAACDecoderConfig lib (audio_Payload tmsg) of
                  Inl err \<Rightarrow> Return (Err err)
                | Inr tr \<Rightarrow> Continue (videoTrack, Some tr))
             else Continue (videoTrack, audioTrack)
         | _ \<Rightarrow> Continue (videoTrack, audioTrack)))"

text \<open>The loop of lines 899 to 972: read, switch, and return once every declared track is there.\<close>

function metadata_loop ::
  "'cfg track_library \<Rightarrow> bool \<Rightarrow> bool
     \<Rightarrow> Format option \<times> 'cfg format_MPEG4Audio option \<Rightarrow> Conn
     \<Rightarrow> (Format option \<times> 'cfg format_MPEG4Audio option) result \<times> Conn" where
  "metadata_loop lib hasVideo hasAudio s c =
     (case ReadMessage c of
        (Inl err, c') \<Rightarrow> (Err err, c')
      | (Inr msg, c') \<Rightarrow>
          (case metadata_step lib hasVideo hasAudio s msg of
             Return r \<Rightarrow> (r, c')
           | BreakOuter s' \<Rightarrow> (Ok s', c')
           | Continue s' \<Rightarrow>
               if (\<not> hasVideo \<or> fst s' \<noteq> None) \<and> (\<not> hasAudio \<or> snd s' \<noteq> None)
               then (Ok s', c')
               else metadata_loop lib hasVideo hasAudio s' c'))"
  by pat_completeness auto
termination
  by (relation "measure (\<lambda>(lib, hasVideo, hasAudio, s, c). length (inbox c))")
    (auto dest: ReadMessage_shorter [OF sym])

declare metadata_loop.simps [simp del]

definition readTracksFromMetadata ::
  "'cfg track_library \<Rightarrow> amf list \<Rightarrow> Conn
     \<Rightarrow> (Format option \<times> 'cfg format_MPEG4Audio option) result \<times> Conn" where
  "readTracksFromMetadata lib payload c =
     (if length payload \<noteq> 1 then (Err (Errorf ''invalid metadata''), c)
      else
        case payload ! 0 of
          AMFMap md \<Rightarrow>
            (case metadata_hasVideo md of
               Inl err \<Rightarrow> (Err err, c)
             | Inr hasVideo \<Rightarrow>
                 (case metadata_hasAudio md of
                    Inl err \<Rightarrow> (Err err, c)
                  | Inr hasAudio \<Rightarrow>
                      if \<not> hasVideo \<and> \<not> hasAudio then (Err errEmptyMetadata, c)
                      else metadata_loop lib hasVideo hasAudio (None, None) c))
        | _ \<Rightarrow> (Err (Errorf ''invalid metadata''), c))"

subsection \<open>Heuristic discovery\<close>










text \<open>
  A stand-in for the parsers, and two messages: a video frame at time 0 and an audio frame
  one second later, neither a decoder configuration.
\<close>

definition tracks0 :: "byte list track_library" where
  "tracks0 =
     \<lparr>h264conf_Unmarshal = (\<lambda>d. if length d < 2 then Inl ''short buffer'' else Inr (take 1 d, drop 1 d)),
      mpeg4audio_Unmarshal = (\<lambda>d. if d = [] then Inl ''short buffer'' else Inr d),
      AVCCUnmarshal = (\<lambda>d. Inr [d])\<rparr>"

definition video_frame_at_0 :: message where
  "video_frame_at_0 =
     MsgVideo \<lparr>video_DTS = 0, video_IsKeyFrame = False, video_H264Type = 1, video_Payload = [1, 2, 3]\<rparr>"

definition audio_frame_at_1s :: message where
  "audio_frame_at_1s =
     MsgAudio \<lparr>audio_DTS = 1000000000, audio_AACType = 1, audio_Payload = [4, 5, 6]\<rparr>"






lemma ReadMessage_Inr: "ReadMessage c = (Inr msg, c') \<Longrightarrow> inbox c = msg # inbox c'"
  by (auto simp add: ReadMessage_def split: list.splits)













subsection \<open>Discovery from metadata\<close>

definition is_video :: "message \<Rightarrow> bool" where
  "is_video msg = (case msg of MsgVideo v \<Rightarrow> True | _ \<Rightarrow> False)"

definition is_audio :: "message \<Rightarrow> bool" where
  "is_audio msg = (case msg of MsgAudio a \<Rightarrow> True | _ \<Rightarrow> False)"

text \<open>Metadata that declares an AAC audio track and no video track.\<close>

definition audio_only_metadata :: "(string \<times> amf) list" where
  "audio_only_metadata = [(''videocodecid'', AMFNumber 0), (''audiocodecid'', AMFNumber 10)]"

lemma metadata_step_unexpected:
  "is_video msg \<Longrightarrow> \<not> hasVideo \<Longrightarrow>
     metadata_step lib hasVideo hasAudio s msg = Return (Err (Errorf ''unexpected video packet''))"
  "is_audio msg \<Longrightarrow> \<not> hasAudio \<Longrightarrow>
     metadata_step lib hasVideo hasAudio s msg = Return (Err (Errorf ''unexpected audio packet''))"
  by (auto simp add: metadata_step_def is_video_def is_audio_def split: prod.splits message.splits)

lemma metadata_loop_unexpected:
  "metadata_loop lib hasVideo hasAudio s c = (r, c') \<Longrightarrow>
     \<exists>consumed. inbox c = consumed @ inbox c'
       \<and> (\<forall>m \<in> set consumed.
             (is_video m \<and> \<not> hasVideo \<longrightarrow> r = Err (Errorf ''unexpected video packet''))
           \<and> (is_audio m \<and> \<not> hasAudio \<longrightarrow> r = Err (Errorf ''unexpected audio packet'')))"
proof (induction lib hasVideo hasAudio s c rule: metadata_loop.induct)
  case (1 lib hasVideo hasAudio s c)
  show ?case
  proof (cases "ReadMessage c")
    case (Pair r1 c1)
    show ?thesis
    proof (cases r1)
      case (Inl err)
      then have "c' = c1"
        using "1.prems" Pair by (simp add: metadata_loop.simps [of lib hasVideo hasAudio s c])
      moreover have "inbox c1 = inbox c"
        using Pair Inl by (auto simp add: ReadMessage_def split: list.splits)
      ultimately show ?thesis
        by (intro exI [of _ "[]"]) simp
    next
      case (Inr msg)
      have i: "inbox c = msg # inbox c1"
        using Pair Inr ReadMessage_Inr by simp
      show ?thesis
      proof (cases "(is_video msg \<and> \<not> hasVideo) \<or> (is_audio msg \<and> \<not> hasAudio)")
        case True
        then have "(is_video msg \<and> \<not> hasVideo \<and> r = Err (Errorf ''unexpected video packet'')
                    \<or> is_audio msg \<and> \<not> hasAudio \<and> r = Err (Errorf ''unexpected audio packet''))
                   \<and> c' = c1"
          using "1.prems" Pair Inr metadata_step_unexpected [of msg hasVideo lib hasAudio s]
            metadata_step_unexpected(2) [of msg hasAudio lib hasVideo s]
          by (auto simp add: metadata_loop.simps [of lib hasVideo hasAudio s c])
        then show ?thesis
          using i by (intro exI [of _ "[msg]"]) (auto simp add: is_video_def is_audio_def split: message.splits)
      next
        case False
        show ?thesis
        proof (cases "metadata_step lib hasVideo hasAudio s msg")
          case (Return r')
          then have "c' = c1"
            using "1.prems" Pair Inr by (simp add: metadata_loop.simps [of lib hasVideo hasAudio s c])
          then show ?thesis
            using i False by (intro exI [of _ "[msg]"]) auto
        next
          case (BreakOuter s')
          then have "c' = c1"
            using "1.prems" Pair Inr by (simp add: metadata_loop.simps [of lib hasVideo hasAudio s c])
          then show ?thesis
            using i False by (intro exI [of _ "[msg]"]) auto
        next
          case (Continue s')
          show ?thesis
          proof (cases "(\<not> hasVideo \<or> fst s' \<noteq> None) \<and> (\<not> hasAudio \<or> snd s' \<noteq> None)")
            case True
            then have "c' = c1"
              using "1.prems" Pair Inr Continue
              by (simp add: metadata_loop.simps [of lib hasVideo hasAudio s c])
            then show ?thesis
              using i False by (intro exI [of _ "[msg]"]) auto
          next
            case nd: False
            have "metadata_loop lib hasVideo hasAudio s c
                    = metadata_loop lib hasVideo hasAudio s' c1"
              using nd
              by (subst metadata_loop.simps)
                (simp only: Pair Inr prod.case sum.case Continue step.case if_False)
            then have run: "metadata_loop lib hasVideo hasAudio s' c1 = (r, c')"
              using "1.prems" by simp
            obtain consumed where k: "inbox c1 = consumed @ inbox c'"
              "\<forall>m \<in> set consumed.
                 (is_video m \<and> \<not> hasVideo \<longrightarrow> r = Err (Errorf ''unexpected video packet''))
               \<and> (is_audio m \<and> \<not> hasAudio \<longrightarrow> r = Err (Errorf ''unexpected audio packet''))"
              using "1.IH" [OF Pair [symmetric] Inr Continue nd run] by blast
            show ?thesis
              using i k False by (intro exI [of _ "msg # consumed"]) auto
          qed
        qed
      qed
    qed
  qed
qed

text \<open>
  C10. Discovery from metadata that declares \<open>hasVideo\<close> and \<open>hasAudio\<close>: of the messages that
  discovery reads (\<open>consumed\<close>), every video message read when no video track was declared
  makes the result the error \<^verbatim>\<open>unexpected video packet\<close>, and every audio message read when
  no audio track was declared makes it \<^verbatim>\<open>unexpected audio packet\<close>. No such message is
  passed over.
\<close>

theorem C10_unexpected_packet:
  assumes "metadata_hasVideo md = Inr hasVideo"
    and "metadata_hasAudio md = Inr hasAudio"
    and "readTracksFromMetadata lib [AMFMap md] c = (r, c')"
  shows "\<exists>consumed. inbox c = consumed @ inbox c'
       \<and> (\<forall>m \<in> set consumed.
             (is_video m \<and> \<not> hasVideo \<longrightarrow> r = Err (Errorf ''unexpected video packet''))
           \<and> (is_audio m \<and> \<not> hasAudio \<longrightarrow> r = Err (Errorf ''unexpected audio packet'')))"
proof (cases "\<not> hasVideo \<and> \<not> hasAudio")
  case True
  then have "c' = c"
    using assms by (simp add: readTracksFromMetadata_def)
  then show ?thesis
    by (intro exI [of _ "[]"]) simp
next
  case False
  then have "metadata_loop lib hasVideo hasAudio (None, None) c = (r, c')"
    using assms by (auto simp add: readTracksFromMetadata_def)
  then show ?thesis
    by (rule metadata_loop_unexpected)
qed

text \<open>
  With audio-only metadata, a video frame behind a message of another kind ends discovery
  with the error; the audio frame after it is not read.
\<close>

theorem C10_unexpected_packet_witness:
  "metadata_hasVideo audio_only_metadata = Inr False
   \<and> metadata_hasAudio audio_only_metadata = Inr True
   \<and> readTracksFromMetadata tracks0 [AMFMap audio_only_metadata]
        (conn_with [MsgOther, video_frame_at_0, audio_frame_at_1s])
       = (Err (Errorf ''unexpected video packet''), conn_with [audio_frame_at_1s])
   \<and> is_video video_frame_at_0"
proof -
  have a1: "metadata_hasVideo audio_only_metadata = Inr False"
    by (simp add: metadata_hasVideo_def audio_only_metadata_def GetV_def)
  have a2: "metadata_hasAudio audio_only_metadata = Inr True"
    by (simp add: metadata_hasAudio_def audio_only_metadata_def GetV_def)
  have a3: "readTracksFromMetadata tracks0 [AMFMap audio_only_metadata]
        (conn_with [MsgOther, video_frame_at_0, audio_frame_at_1s])
       = (Err (Errorf ''unexpected video packet''), conn_with [audio_frame_at_1s])"
    by (simp add: readTracksFromMetadata_def a1 a2 metadata_loop.simps metadata_step_def
        ReadMessage_def conn_with_def video_frame_at_0_def audio_frame_at_1s_def)
  have a4: "is_video video_frame_at_0"
    by (simp add: is_video_def video_frame_at_0_def)
  obtain consumed where k: "inbox (conn_with [MsgOther, video_frame_at_0, audio_frame_at_1s])
       = consumed @ inbox (conn_with [audio_frame_at_1s])"
    using C10_unexpected_packet [OF a1 a2 a3] by blast
  then have "consumed = [MsgOther, video_frame_at_0]"
    by (simp add: conn_with_def)
  then show ?thesis
    using a1 a2 a3 a4 by simp
qed

end
